theory Spec2Isabelle
  imports Complex_Main
begin

section \<open>Floating-point values\<close>

text \<open>
  The notebook computes with NumPy \<^verbatim>\<open>float64\<close> arrays and Torch \<^verbatim>\<open>float32\<close> tensors.
  A float is modelled as a real number or one of the three special values of
  IEEE 754. Rounding and the sign of zero are not modelled. What is modelled is what the
  arithmetic does where the real result does not exist: \<^verbatim>\<open>0/0\<close>, \<^verbatim>\<open>inf - inf\<close> and
  \<^verbatim>\<open>0 * inf\<close> are \<^verbatim>\<open>nan\<close>, a non-zero value over zero is an infinity, and \<^verbatim>\<open>nan\<close>
  propagates. NumPy and Torch do not raise on any of these (NumPy prints a
  RuntimeWarning at most). The operations come twice: exact on finite values (below),
  and with overflow, where a finite result beyond the largest float of the format is an
  infinity.
\<close>

datatype fval = Fin real | PInf | NInf | NaN

text \<open>The infinity with the sign of \<open>s\<close>; \<^verbatim>\<open>nan\<close> when \<open>s\<close> is zero.\<close>

definition inf_of_sign :: "real \<Rightarrow> fval" where
  "inf_of_sign s = (if 0 < s then PInf else if s < 0 then NInf else NaN)"

fun f_neg :: "fval \<Rightarrow> fval" where
  "f_neg (Fin a) = Fin (- a)"
| "f_neg PInf = NInf"
| "f_neg NInf = PInf"
| "f_neg NaN = NaN"

fun f_add :: "fval \<Rightarrow> fval \<Rightarrow> fval" where
  "f_add NaN _ = NaN"
| "f_add _ NaN = NaN"
| "f_add (Fin a) (Fin b) = Fin (a + b)"
| "f_add PInf NInf = NaN"
| "f_add NInf PInf = NaN"
| "f_add PInf _ = PInf"
| "f_add _ PInf = PInf"
| "f_add NInf _ = NInf"
| "f_add _ NInf = NInf"

definition f_sub :: "fval \<Rightarrow> fval \<Rightarrow> fval" where
  "f_sub a b = f_add a (f_neg b)"

fun f_mul :: "fval \<Rightarrow> fval \<Rightarrow> fval" where
  "f_mul NaN _ = NaN"
| "f_mul _ NaN = NaN"
| "f_mul (Fin a) (Fin b) = Fin (a * b)"
| "f_mul (Fin a) PInf = inf_of_sign a"
| "f_mul (Fin a) NInf = inf_of_sign (- a)"
| "f_mul PInf (Fin b) = inf_of_sign b"
| "f_mul NInf (Fin b) = inf_of_sign (- b)"
| "f_mul PInf PInf = PInf"
| "f_mul PInf NInf = NInf"
| "f_mul NInf PInf = NInf"
| "f_mul NInf NInf = PInf"

text \<open>
  Division. A finite non-zero value over zero is the infinity of the dividend's sign (the
  zero is taken as \<^verbatim>\<open>+0.0\<close>), \<^verbatim>\<open>0/0\<close> and \<^verbatim>\<open>inf/inf\<close> are \<^verbatim>\<open>nan\<close>, a finite value over
  an infinity is zero.
\<close>

fun f_div :: "fval \<Rightarrow> fval \<Rightarrow> fval" where
  "f_div NaN _ = NaN"
| "f_div _ NaN = NaN"
| "f_div (Fin a) (Fin b) = (if b = 0 then inf_of_sign a else Fin (a / b))"
| "f_div (Fin a) PInf = Fin 0"
| "f_div (Fin a) NInf = Fin 0"
| "f_div PInf (Fin b) = (if 0 \<le> b then PInf else NInf)"
| "f_div NInf (Fin b) = (if 0 \<le> b then NInf else PInf)"
| "f_div PInf PInf = NaN"
| "f_div PInf NInf = NaN"
| "f_div NInf PInf = NaN"
| "f_div NInf NInf = NaN"

text \<open>Comparison: every comparison with \<^verbatim>\<open>nan\<close> is false.\<close>

fun f_le :: "fval \<Rightarrow> fval \<Rightarrow> bool" where
  "f_le NaN _ = False"
| "f_le _ NaN = False"
| "f_le (Fin a) (Fin b) = (a \<le> b)"
| "f_le NInf _ = True"
| "f_le _ PInf = True"
| "f_le PInf _ = False"
| "f_le _ NInf = False"


text \<open>
  \<^verbatim>\<open>np.maximum\<close>, \<^verbatim>\<open>torch.min\<close> and \<^verbatim>\<open>torch.clamp\<close> work entry by entry and propagate
  \<^verbatim>\<open>nan\<close>.
\<close>

fun f_maximum :: "fval \<Rightarrow> fval \<Rightarrow> fval" where
  "f_maximum NaN _ = NaN"
| "f_maximum _ NaN = NaN"
| "f_maximum a b = (if f_le a b then b else a)"



subsection \<open>Overflow\<close>

text \<open>
  The largest finite \<^verbatim>\<open>float64\<close> (NumPy's arrays) and \<^verbatim>\<open>float32\<close> (Torch's tensors). A
  finite result above the largest float of the format, or below its negative, is the
  infinity of its sign; inside the range it is kept as it is. The operations below take
  the largest float as their first argument, and are the exact ones on the special
  values.
\<close>

definition float64_max :: real where
  "float64_max = (2 ^ 53 - 1) * 2 ^ 971"

definition float32_max :: real where
  "float32_max = (2 ^ 24 - 1) * 2 ^ 104"

definition rnd :: "real \<Rightarrow> real \<Rightarrow> fval" where
  "rnd mx r = (if mx < r then PInf else if r < - mx then NInf else Fin r)"

fun fl_add :: "real \<Rightarrow> fval \<Rightarrow> fval \<Rightarrow> fval" where
  "fl_add mx (Fin a) (Fin b) = rnd mx (a + b)"
| "fl_add mx a b = f_add a b"

definition fl_sub :: "real \<Rightarrow> fval \<Rightarrow> fval \<Rightarrow> fval" where
  "fl_sub mx a b = fl_add mx a (f_neg b)"

fun fl_mul :: "real \<Rightarrow> fval \<Rightarrow> fval \<Rightarrow> fval" where
  "fl_mul mx (Fin a) (Fin b) = rnd mx (a * b)"
| "fl_mul mx a b = f_mul a b"

fun fl_div :: "real \<Rightarrow> fval \<Rightarrow> fval \<Rightarrow> fval" where
  "fl_div mx (Fin a) (Fin b) = (if b = 0 then inf_of_sign a else rnd mx (a / b))"
| "fl_div mx a b = f_div a b"

text \<open>A sum starts from zero and adds the entries from left to right.\<close>

fun fl_sum_from :: "real \<Rightarrow> fval \<Rightarrow> fval list \<Rightarrow> fval" where
  "fl_sum_from mx acc [] = acc"
| "fl_sum_from mx acc (x # xs) = fl_sum_from mx (fl_add mx acc x) xs"

definition fl_sum :: "real \<Rightarrow> fval list \<Rightarrow> fval" where
  "fl_sum mx xs = fl_sum_from mx (Fin 0) xs"


definition is_float :: "real \<Rightarrow> fval \<Rightarrow> bool" where
  "is_float mx v = (case v of Fin r \<Rightarrow> \<bar>r\<bar> \<le> mx | _ \<Rightarrow> True)"

section \<open>Errors\<close>

datatype error = ValueError | RuntimeError | TypeError

section \<open>The environment\<close>

text \<open>
  \<^verbatim>\<open>MarketingEnv\<close> has the attributes \<^verbatim>\<open>betas\<close> (the coefficients, a list of numbers
  turned into a tensor), \<^verbatim>\<open>budget\<close> (a number), \<^verbatim>\<open>num_channels\<close> and \<^verbatim>\<open>state\<close> (a
  NumPy array of \<^verbatim>\<open>float64\<close>). The coefficients and the budget are finite numbers. The
  arithmetic of the environment is NumPy's, on \<^verbatim>\<open>float64\<close> with overflow.
\<close>

record MarketingEnv =
  betas :: "real list"
  budget :: real
  num_channels :: nat
  state :: "fval list"

text \<open>
  \<^verbatim>\<open>reset\<close> draws \<^verbatim>\<open>np.random.dirichlet(np.ones(self.num_channels))\<close> and scales it by
  the budget. The draw is the library's: it is the argument \<open>draw\<close> here, and what
  the library promises of it (as many entries as channels, none negative, sum one) is a
  hypothesis where a theorem needs it. \<^verbatim>\<open>reset\<close> returns the state as a tensor.
\<close>

definition reset :: "MarketingEnv \<Rightarrow> fval list \<Rightarrow> fval list \<times> MarketingEnv" where
  "reset env draw =
     (let s = map (\<lambda>p. fl_mul float64_max p (Fin (budget env))) draw
      in (s, env\<lparr>state := s\<rparr>))"

text \<open>
  \<^verbatim>\<open>__init__\<close> stores the coefficients and the budget, counts the channels and calls
  \<^verbatim>\<open>reset\<close>. It has no check and no \<^verbatim>\<open>raise\<close>: it never returns an error.
\<close>

definition MarketingEnv_init :: "real list \<Rightarrow> real \<Rightarrow> fval list \<Rightarrow> error + MarketingEnv" where
  "MarketingEnv_init bs b draw =
     Inr (snd (reset \<lparr>betas = bs, budget = b, num_channels = length bs, state = []\<rparr> draw))"

text \<open>
  \<^verbatim>\<open>self.state += action_changes\<close> adds in place. Arrays of the same length are added
  entry by entry, an array of length one is broadcast over the state, and any other
  length raises \<^verbatim>\<open>ValueError\<close> with the state unchanged.
\<close>

definition np_iadd :: "fval list \<Rightarrow> fval list \<Rightarrow> error + fval list" where
  "np_iadd s d =
     (if length d = length s then Inr (map2 (fl_add float64_max) s d)
      else if length d = 1 then Inr (map (\<lambda>x. fl_add float64_max x (hd d)) s)
      else Inl ValueError)"

text \<open>\<^verbatim>\<open>np.dot\<close> of two one-dimensional arrays: their lengths must agree.\<close>

definition dot :: "fval list \<Rightarrow> fval list \<Rightarrow> fval" where
  "dot a b = fl_sum float64_max (map2 (fl_mul float64_max) a b)"

definition np_dot :: "fval list \<Rightarrow> fval list \<Rightarrow> error + fval" where
  "np_dot a b = (if length a = length b then Inr (dot a b) else Inl ValueError)"

text \<open>The state after the clamp, before it is normalised.\<close>

definition clamped :: "fval list \<Rightarrow> fval list" where
  "clamped s = map (\<lambda>x. f_maximum x (Fin 0)) s"

text \<open>\<^verbatim>\<open>(self.state / np.sum(self.state)) * self.budget\<close>\<close>

definition normalise :: "real \<Rightarrow> fval list \<Rightarrow> fval list" where
  "normalise b s =
     map (\<lambda>x. fl_mul float64_max (fl_div float64_max x (fl_sum float64_max s)) (Fin b)) s"

text \<open>
  \<^verbatim>\<open>step\<close> returns the outcome and the environment after the call: the new state as a
  tensor, the revenue and the flag \<^verbatim>\<open>False\<close>, or the exception raised. An exception of
  \<^verbatim>\<open>np.dot\<close> comes after the state has been assigned.
\<close>

definition step ::
  "MarketingEnv \<Rightarrow> fval list \<Rightarrow> (error + fval list \<times> fval \<times> bool) \<times> MarketingEnv" where
  "step env action_changes =
     (case np_iadd (state env) action_changes of
        Inl e \<Rightarrow> (Inl e, env)
      | Inr s1 \<Rightarrow>
          (let s2 = clamped s1;
               s3 = normalise (budget env) s2;
               env' = env\<lparr>state := s3\<rparr>
           in case np_dot (map Fin (betas env')) s3 of
                Inl e \<Rightarrow> (Inl e, env')
              | Inr revenue \<Rightarrow> (Inr (s3, revenue, False), env')))"


section \<open>The actor network\<close>

text \<open>
  The network computes on \<^verbatim>\<open>float32\<close> tensors, with overflow; its input, its parameters
  and its activations are floats, special values included. The input is one state (a
  one-dimensional tensor). \<^verbatim>\<open>nn.Linear(i, o)\<close> holds a weight matrix of \<open>o\<close> rows and
  \<open>i\<close> columns and a bias of \<open>o\<close> entries, and raises \<^verbatim>\<open>RuntimeError\<close> on an input of
  another length.
\<close>

record Linear =
  in_features :: nat
  out_features :: nat
  weight :: "fval list list"
  bias :: "fval list"

definition Linear_shape :: "nat \<Rightarrow> nat \<Rightarrow> Linear \<Rightarrow> bool" where
  "Linear_shape i out l =
     (in_features l = i \<and> out_features l = out \<and> length (weight l) = out \<and>
      list_all (\<lambda>row. length row = i) (weight l) \<and> length (bias l) = out)"

definition t_dot :: "fval list \<Rightarrow> fval list \<Rightarrow> fval" where
  "t_dot a b = fl_sum float32_max (map2 (fl_mul float32_max) a b)"

definition linear :: "Linear \<Rightarrow> fval list \<Rightarrow> error + fval list" where
  "linear l x =
     (if length x = in_features l
      then Inr (map2 (\<lambda>row b. fl_add float32_max (t_dot row x) b) (weight l) (bias l))
      else Inl RuntimeError)"

text \<open>\<^verbatim>\<open>torch.relu\<close> is the maximum with zero, and propagates \<^verbatim>\<open>nan\<close>.\<close>

definition relu :: "fval list \<Rightarrow> fval list" where
  "relu x = map (\<lambda>v. f_maximum v (Fin 0)) x"

text \<open>
  \<^verbatim>\<open>torch.softmax\<close> is \<open>exp x\<^sub>i / \<Sum>\<^sub>j exp x\<^sub>j\<close>, computed as Torch does: the largest entry
  is subtracted from every entry before the exponential, so that no exponential of a
  finite entry overflows. The softmax of the empty tensor is empty.
\<close>

fun f_exp :: "real \<Rightarrow> fval \<Rightarrow> fval" where
  "f_exp mx (Fin x) = rnd mx (exp x)"
| "f_exp mx PInf = PInf"
| "f_exp mx NInf = Fin 0"
| "f_exp mx NaN = NaN"

fun t_max :: "fval \<Rightarrow> fval list \<Rightarrow> fval" where
  "t_max m [] = m"
| "t_max m (x # xs) = t_max (f_maximum m x) xs"

definition softmax :: "fval list \<Rightarrow> fval list" where
  "softmax z =
     (case z of
        [] \<Rightarrow> []
      | x # xs \<Rightarrow>
          (let m = t_max x xs;
               e = map (\<lambda>v. f_exp float32_max (fl_sub float32_max v m)) z;
               s = fl_sum float32_max e
           in map (\<lambda>y. fl_div float32_max y s) e))"

record ActorNetwork =
  fc1 :: Linear
  fc2 :: Linear
  fc3 :: Linear

text \<open>The shapes \<^verbatim>\<open>ActorNetwork.__init__(state_dim)\<close> builds; the values are random.\<close>

definition ActorNetwork_shape :: "nat \<Rightarrow> ActorNetwork \<Rightarrow> bool" where
  "ActorNetwork_shape state_dim net =
     (Linear_shape state_dim 64 (fc1 net) \<and> Linear_shape 64 64 (fc2 net) \<and>
      Linear_shape 64 state_dim (fc3 net))"

text \<open>The parameters are \<^verbatim>\<open>float32\<close> values.\<close>

definition Linear_float32 :: "Linear \<Rightarrow> bool" where
  "Linear_float32 l =
     (list_all (list_all (is_float float32_max)) (weight l) \<and>
      list_all (is_float float32_max) (bias l))"

definition ActorNetwork_float32 :: "ActorNetwork \<Rightarrow> bool" where
  "ActorNetwork_float32 net =
     (Linear_float32 (fc1 net) \<and> Linear_float32 (fc2 net) \<and> Linear_float32 (fc3 net))"

text \<open>
  \<^verbatim>\<open>forward\<close>: the two hidden layers with \<^verbatim>\<open>relu\<close> and the output layer give the
  argument of the softmax, called the logits here.
\<close>

definition logits :: "ActorNetwork \<Rightarrow> fval list \<Rightarrow> error + fval list" where
  "logits net st =
     (case linear (fc1 net) st of
        Inl e \<Rightarrow> Inl e
      | Inr h1 \<Rightarrow>
          (case linear (fc2 net) (relu h1) of
             Inl e \<Rightarrow> Inl e
           | Inr h2 \<Rightarrow> linear (fc3 net) (relu h2)))"

definition forward :: "ActorNetwork \<Rightarrow> fval list \<Rightarrow> error + fval list" where
  "forward net st =
     (case logits net st of
        Inl e \<Rightarrow> Inl e
      | Inr z \<Rightarrow> Inr (softmax z))"

text \<open>
  A network of the constructor's shapes for two channels, for the examples.
\<close>

definition net0 :: ActorNetwork where
  "net0 = \<lparr>fc1 = \<lparr>in_features = 2, out_features = 64,
             weight = replicate 64 [Fin 1, Fin (- 1)], bias = replicate 64 (Fin 0)\<rparr>,
      fc2 = \<lparr>in_features = 64, out_features = 64,
             weight = replicate 64 (replicate 64 (Fin 0)), bias = replicate 64 (Fin 1)\<rparr>,
      fc3 = \<lparr>in_features = 64, out_features = 2,
             weight = [replicate 64 (Fin 0), replicate 64 (Fin 0)], bias = [Fin 0, Fin 1]\<rparr>\<rparr>"

section \<open>The agent\<close>

text \<open>
  The returns, the advantages and the actor loss are written with the exact operations:
  what is proved of them compares what the code computes with a recursion and a formula
  made of the same operations, on any values.
\<close>

subsection \<open>Advantages and returns\<close>

text \<open>
  The loop of \<^verbatim>\<open>compute_advantage\<close> over \<^verbatim>\<open>zip(reversed(rewards), reversed(values))\<close>:
  \<open>G\<close> is updated, then put in front of \<^verbatim>\<open>returns\<close>, and \<open>G - v\<close> in front of
  \<^verbatim>\<open>advantages\<close>.
\<close>

fun advantage_loop ::
  "real \<Rightarrow> (fval \<times> fval) list \<Rightarrow> fval \<Rightarrow> fval list \<Rightarrow> fval list \<Rightarrow> fval list \<times> fval list" where
  "advantage_loop gamma [] G advantages returns = (advantages, returns)"
| "advantage_loop gamma ((r, v) # rest) G advantages returns =
     (let G' = f_add r (f_mul (Fin gamma) G)
      in advantage_loop gamma rest G' (f_sub G' v # advantages) (G' # returns))"

definition compute_advantage :: "real \<Rightarrow> fval list \<Rightarrow> fval list \<Rightarrow> fval list \<times> fval list" where
  "compute_advantage gamma rewards vals =
     advantage_loop gamma (zip (rev rewards) (rev vals)) (Fin 0) [] []"

text \<open>
  The recursion as the specification words it: the return of a trajectory is zero at its
  end, and \<open>r\<^sub>t + \<gamma> \<sqdot> G\<^sub>t\<^sub>+\<^sub>1\<close> before; step \<open>t\<close> gets the return of the
  trajectory from \<open>t\<close> on, and that return less \<open>v\<^sub>t\<close> as its advantage.
\<close>

fun mc_return :: "real \<Rightarrow> fval list \<Rightarrow> fval" where
  "mc_return gamma [] = Fin 0"
| "mc_return gamma (r # rs) = f_add r (f_mul (Fin gamma) (mc_return gamma rs))"

definition returns_spec :: "real \<Rightarrow> fval list \<Rightarrow> fval list" where
  "returns_spec gamma rewards =
     map (\<lambda>t. mc_return gamma (drop t rewards)) [0..<length rewards]"

definition advantages_spec :: "real \<Rightarrow> fval list \<Rightarrow> fval list \<Rightarrow> fval list" where
  "advantages_spec gamma rewards vals =
     map (\<lambda>t. f_sub (mc_return gamma (drop t rewards)) (vals ! t)) [0..<length rewards]"

subsection \<open>The actor loss\<close>








subsection \<open>The first statements of update\<close>

text \<open>
  \<^verbatim>\<open>update\<close> starts with \<^verbatim>\<open>values = self.critic(states).squeeze()\<close> and
  \<^verbatim>\<open>advantages, returns = self.compute_advantage(rewards, values)\<close>; the losses follow,
  and the optimizers are called last. The critic returns one row of one value for each
  state. \<^verbatim>\<open>squeeze\<close> drops every dimension of size one: of the values of several states
  (or of none) it leaves the vector, of the value of one state it leaves a tensor of no
  dimension.
\<close>

datatype tensor = Scalar fval | Vector "fval list"

definition squeeze_column :: "fval list \<Rightarrow> tensor" where
  "squeeze_column col = (case col of [v] \<Rightarrow> Scalar v | _ \<Rightarrow> Vector col)"

text \<open>
  \<^verbatim>\<open>zip(reversed(rewards), reversed(values))\<close> on a vector of rewards: \<^verbatim>\<open>reversed\<close>
  returns a tensor of no dimension as it is, and \<^verbatim>\<open>zip\<close> cannot iterate over it.
\<close>

definition zip_reversed :: "fval list \<Rightarrow> tensor \<Rightarrow> error + (fval \<times> fval) list" where
  "zip_reversed rewards vals =
     (case vals of
        Scalar v \<Rightarrow> Inl TypeError
      | Vector vs \<Rightarrow> Inr (zip (rev rewards) (rev vs)))"

definition compute_advantage_of ::
  "real \<Rightarrow> fval list \<Rightarrow> tensor \<Rightarrow> error + fval list \<times> fval list" where
  "compute_advantage_of gamma rewards vals =
     (case zip_reversed rewards vals of
        Inl e \<Rightarrow> Inl e
      | Inr pairs \<Rightarrow> Inr (advantage_loop gamma pairs (Fin 0) [] []))"

text \<open>The two statements, from what the critic returns on \<^verbatim>\<open>states\<close> and the rewards.\<close>

definition update_advantages ::
  "real \<Rightarrow> fval list \<Rightarrow> fval list \<Rightarrow> error + fval list \<times> fval list" where
  "update_advantages gamma critic_out rewards =
     compute_advantage_of gamma rewards (squeeze_column critic_out)"

section \<open>Properties of the environment\<close>

subsection \<open>Floats in range\<close>

lemma float64_max_ge: "1000000000000 \<le> float64_max"
proof -
  have "(2::real) ^ 40 \<le> 2 ^ 971" by (rule power_increasing) simp_all
  moreover have "(1000000000000::real) \<le> 2 ^ 40" by simp
  moreover have "(1::real) \<le> 2 ^ 53 - 1" by simp
  ultimately have "(1000000000000::real) * 1 \<le> 2 ^ 971 * (2 ^ 53 - 1)"
    by (intro mult_mono) auto
  then show ?thesis by (simp add: float64_max_def mult.commute)
qed

lemma float64_max_pos: "0 < float64_max" "0 \<le> float64_max" "1 \<le> float64_max"
  using float64_max_ge by simp_all


lemma rnd_Fin: "- mx \<le> r \<Longrightarrow> r \<le> mx \<Longrightarrow> rnd mx r = Fin r"
  by (simp add: rnd_def)

lemma rnd_abs: "\<bar>r\<bar> \<le> mx \<Longrightarrow> rnd mx r = Fin r"
  by (auto simp: rnd_def)


lemma rnd64_small: "\<bar>r\<bar> \<le> 1000000000000 \<Longrightarrow> rnd float64_max r = Fin r"
  using float64_max_ge by (intro rnd_abs) auto

lemma member_le_sum_list_real:
  "\<forall>z\<in>set zs. 0 \<le> z \<Longrightarrow> z \<in> set zs \<Longrightarrow> z \<le> sum_list (zs :: real list)"
proof (induction zs)
  case Nil then show ?case by simp
next
  case (Cons a zs)
  have nn: "0 \<le> sum_list zs" using Cons.prems(1) by (intro sum_list_nonneg) auto
  show ?case
  proof (cases "z = a")
    case True with nn show ?thesis by simp
  next
    case False
    with Cons have "z \<le> sum_list zs" by auto
    moreover have "0 \<le> a" using Cons.prems(1) by simp
    ultimately show ?thesis by simp
  qed
qed

lemma fl_sum_from_Fin:
  "\<forall>x\<in>set xs. 0 \<le> x \<Longrightarrow> 0 \<le> a \<Longrightarrow> a + sum_list xs \<le> mx \<Longrightarrow>
   fl_sum_from mx (Fin a) (map Fin xs) = Fin (a + sum_list xs)"
proof (induction xs arbitrary: a)
  case Nil then show ?case by simp
next
  case (Cons x xs)
  have nn: "0 \<le> sum_list xs" using Cons.prems(1) by (intro sum_list_nonneg) auto
  have x0: "0 \<le> x" using Cons.prems(1) by simp
  have "rnd mx (a + x) = Fin (a + x)"
    using nn x0 Cons.prems(2,3) by (intro rnd_Fin) auto
  moreover have "fl_sum_from mx (Fin (a + x)) (map Fin xs) = Fin (a + x + sum_list xs)"
    using Cons.prems x0 by (intro Cons.IH) auto
  ultimately show ?case by (simp add: add.assoc)
qed

lemma fl_sum_Fin:
  "\<forall>x\<in>set xs. 0 \<le> x \<Longrightarrow> sum_list xs \<le> mx \<Longrightarrow> fl_sum mx (map Fin xs) = Fin (sum_list xs)"
  using fl_sum_from_Fin[of xs 0 mx] by (simp add: fl_sum_def)



lemma fl_sum_from_NaN: "fl_sum_from mx NaN xs = NaN"
  by (induction xs) simp_all






subsection \<open>The reward of a step\<close>

lemma step_returns:
  assumes "np_iadd (state env) d = Inr s1" and "length (betas env) = length (state env)"
  shows "step env d =
    (Inr (normalise (budget env) (clamped s1),
          dot (map Fin (betas env)) (normalise (budget env) (clamped s1)), False),
     env\<lparr>state := normalise (budget env) (clamped s1)\<rparr>)"
proof -
  from assms(1) have "length s1 = length (state env)"
    by (auto simp: np_iadd_def split: if_splits)
  then have "length (normalise (budget env) (clamped s1)) = length (betas env)"
    using assms(2) by (simp add: normalise_def clamped_def)
  then show ?thesis using assms(1)
    by (simp add: step_def np_dot_def Let_def)
qed







subsection \<open>The budget simplex\<close>







text \<open>
  With a budget below zero the entries after \<^verbatim>\<open>reset\<close> are below zero.
\<close>

lemma negative_budget_example:
  "state (snd (reset \<lparr>betas = [1, 2], budget = - 4, num_channels = 2, state = []\<rparr>
                     [Fin (1/2), Fin (1/2)])) = [Fin (- 2), Fin (- 2)]"
  by (simp add: reset_def Let_def rnd64_small)

text \<open>
  Beyond the bound on the clamped sum the invariant fails too: with the change
  \<open>[10\<^sup>3\<^sup>0\<^sup>8, 10\<^sup>3\<^sup>0\<^sup>8]\<close> the sum overflows to infinity, every entry over it is zero, and
  the state \<open>[0, 0]\<close> does not sum to the budget.
\<close>

lemma big: "(10::real) ^ 308 + 2 \<le> float64_max" "float64_max < 2 * 10 ^ 308 + 3"
  by (simp_all add: float64_max_def)

lemma overflow_general:
  assumes "0 < a" and "a + 2 \<le> float64_max" and "float64_max < 2 * a + 3"
  shows "state (snd (step \<lparr>betas = [1, 2], budget = 3, num_channels = 2,
                          state = [Fin 1, Fin 2]\<rparr> [Fin a, Fin a])) = [Fin 0, Fin 0]"
  using assms
  by (simp add: step_def np_iadd_def clamped_def normalise_def np_dot_def dot_def fl_sum_def Let_def
      rnd_def)

lemma overflow_example:
  "state (snd (step \<lparr>betas = [1, 2], budget = 3, num_channels = 2, state = [Fin 1, Fin 2]\<rparr>
                    [Fin (10 ^ 308), Fin (10 ^ 308)])) = [Fin 0, Fin 0]"
  using big by (intro overflow_general) simp_all

subsection \<open>The degenerate state\<close>

lemma fl_sum_zeros: "0 \<le> mx \<Longrightarrow> fl_sum mx (replicate n (Fin 0)) = Fin 0"
  unfolding fl_sum_def by (induction n) (simp_all add: rnd_def)

lemma normalise_zeros: "0 < n \<Longrightarrow> normalise b (replicate n (Fin 0)) = replicate n NaN"
  using fl_sum_zeros[OF float64_max_pos(2), of n]
  by (simp add: normalise_def inf_of_sign_def)

lemma dot_nan: "0 < n \<Longrightarrow> length bs = n \<Longrightarrow> dot (map Fin bs) (replicate n NaN) = NaN"
  by (cases bs; cases n) (simp_all add: dot_def fl_sum_def fl_sum_from_NaN)

text \<open>
  Claim C5, as amended. When the change is one the addition accepts and the clamp leaves
  zero in every entry of a state that is not empty and as long as the coefficient
  vector, \<^verbatim>\<open>step\<close> raises nothing: it returns a state of \<^verbatim>\<open>nan\<close> and the reward
  \<^verbatim>\<open>nan\<close>, and the environment keeps that state.
\<close>

theorem step_degenerate:
  assumes "np_iadd (state env) d = Inr s1" and "clamped s1 = replicate n (Fin 0)"
    and "0 < n" and "length (betas env) = length (state env)"
  shows "step env d = (Inr (replicate n NaN, NaN, False), env\<lparr>state := replicate n NaN\<rparr>)"
proof -
  from assms(2) have "length s1 = n"
    by (metis clamped_def length_map length_replicate)
  moreover from assms(1) have "length s1 = length (state env)"
    by (auto simp: np_iadd_def split: if_splits)
  ultimately have "length (betas env) = n" using assms(4) by simp
  with step_returns[OF assms(1) assms(4)] assms(2,3) show ?thesis
    by (simp add: normalise_zeros dot_nan)
qed

theorem step_degenerate_witness:
  "np_iadd (state \<lparr>betas = [1, 2], budget = 3, num_channels = 2, state = [Fin 1, Fin 2]\<rparr>)
     [Fin (- 5), Fin (- 2)] = Inr [Fin (- 4), Fin 0] \<and>
   clamped [Fin (- 4), Fin 0] = replicate 2 (Fin 0) \<and> (0::nat) < 2 \<and>
   length [1, 2 :: real] = length [Fin 1, Fin 2] \<and>
   step \<lparr>betas = [1, 2], budget = 3, num_channels = 2, state = [Fin 1, Fin 2]\<rparr>
        [Fin (- 5), Fin (- 2)]
   = (Inr ([NaN, NaN], NaN, False),
      \<lparr>betas = [1, 2], budget = 3, num_channels = 2, state = [NaN, NaN]\<rparr>)"
proof -
  let ?e = "\<lparr>betas = [1, 2], budget = 3, num_channels = 2, state = [Fin 1, Fin 2]\<rparr>"
  have a: "np_iadd (state ?e) [Fin (- 5), Fin (- 2)] = Inr [Fin (- 4), Fin 0]"
    by (simp add: np_iadd_def rnd64_small)
  have c: "clamped [Fin (- 4), Fin 0] = replicate 2 (Fin 0)"
    by (simp add: clamped_def numeral_2_eq_2)
  have r: "replicate 2 NaN = [NaN, NaN]" by (simp add: numeral_2_eq_2)
  from step_degenerate[OF a c] a c r show ?thesis by simp
qed

text \<open>
  Claim C5 as stated fails: at the state \<open>[1, 2]\<close> and the change \<open>[-1, -2]\<close> the
  clamped vector is zero in every entry, and \<^verbatim>\<open>step\<close> returns normally, with \<^verbatim>\<open>nan\<close>
  in the state and as the reward.
\<close>

theorem step_degenerate_nan:
  "clamped (map2 (fl_add float64_max) [Fin 1, Fin 2] [Fin (-1), Fin (-2)]) = [Fin 0, Fin 0] \<and>
   step \<lparr>betas = [1, 2], budget = 3, num_channels = 2, state = [Fin 1, Fin 2]\<rparr>
        [Fin (-1), Fin (-2)]
   = (Inr ([NaN, NaN], NaN, False),
      \<lparr>betas = [1, 2], budget = 3, num_channels = 2, state = [NaN, NaN]\<rparr>)"
  by (simp add: step_def np_iadd_def clamped_def normalise_def np_dot_def dot_def fl_sum_def Let_def
      inf_of_sign_def rnd64_small)

subsection \<open>Construction\<close>

text \<open>
  Claim C8, as amended. The constructor checks nothing: for every coefficient vector and
  every budget it returns the environment, with the state the draw scaled by the budget.
\<close>

theorem init_validates_nothing:
  "MarketingEnv_init bs b draw =
     Inr \<lparr>betas = bs, budget = b, num_channels = length bs,
          state = map (\<lambda>p. fl_mul float64_max p (Fin b)) draw\<rparr>"
  by (simp add: MarketingEnv_init_def reset_def Let_def)

text \<open>
  Claim C8 as stated fails: with the budget \<open>-4\<close>, and with the budget \<open>0\<close>, the
  constructor returns an environment.
\<close>

theorem init_counterexample:
  "MarketingEnv_init [1, 2] (- 4) [Fin (1/2), Fin (1/2)] =
     Inr \<lparr>betas = [1, 2], budget = - 4, num_channels = 2, state = [Fin (- 2), Fin (- 2)]\<rparr> \<and>
   MarketingEnv_init [1, 2] 0 [Fin (1/2), Fin (1/2)] =
     Inr \<lparr>betas = [1, 2], budget = 0, num_channels = 2, state = [Fin 0, Fin 0]\<rparr>"
  by (simp add: MarketingEnv_init_def reset_def Let_def rnd64_small)

subsection \<open>The zero change\<close>








section \<open>Properties of the actor network\<close>

lemma float32_max_ge: "1000000000000 \<le> float32_max"
proof -
  have "(2::real) ^ 40 \<le> 2 ^ 104" by (rule power_increasing) simp_all
  moreover have "(1000000000000::real) \<le> 2 ^ 40" by simp
  moreover have "(1::real) \<le> 2 ^ 24 - 1" by simp
  ultimately have "(1000000000000::real) * 1 \<le> 2 ^ 104 * (2 ^ 24 - 1)"
    by (intro mult_mono) auto
  then show ?thesis by (simp add: float32_max_def mult.commute)
qed

lemma float32_max_pos: "0 \<le> float32_max" "1 \<le> float32_max" "65536 \<le> float32_max"
  using float32_max_ge by simp_all

lemma rnd32_small: "\<bar>r\<bar> \<le> 1000000000000 \<Longrightarrow> rnd float32_max r = Fin r"
  using float32_max_ge by (intro rnd_abs) auto

lemma fl_sum_nans: "0 < n \<Longrightarrow> fl_sum mx (replicate n NaN) = NaN"
  by (cases n) (simp_all add: fl_sum_def fl_sum_from_NaN)

lemma sum_list_le_length:
  "\<forall>x\<in>set xs. x \<le> 1 \<Longrightarrow> sum_list xs \<le> real (length xs)"
  by (induction xs) auto

lemma sum_list_div_const: "sum_list (map (\<lambda>x. f x / c) z) = sum_list (map f z) / (c::real)"
  by (induction z) (simp_all add: add_divide_distrib)

lemma t_max_Fin:
  "\<exists>M. t_max (Fin m) (map Fin xs) = Fin M \<and> m \<le> M \<and> (\<forall>v\<in>set xs. v \<le> M) \<and>
       (M = m \<or> M \<in> set xs)"
proof (induction xs arbitrary: m)
  case Nil
  then show ?case by simp
next
  case (Cons x xs)
  have step: "f_maximum (Fin m) (Fin x) = Fin (max m x)" by (simp add: max_def)
  from Cons.IH[of "max m x"] obtain M where
    M: "t_max (Fin (max m x)) (map Fin xs) = Fin M" "max m x \<le> M" "\<forall>v\<in>set xs. v \<le> M"
       "M = max m x \<or> M \<in> set xs" by blast
  have "t_max (Fin m) (map Fin (x # xs)) = Fin M" using M(1) step by simp
  moreover have "m \<le> M" using M(2) by simp
  moreover have "\<forall>v\<in>set (x # xs). v \<le> M" using M(2,3) by simp
  moreover have "M = m \<or> M \<in> set (x # xs)" using M(4) by (auto simp: max_def split: if_splits)
  ultimately show ?case by blast
qed

lemma exp_shifted:
  assumes "v \<le> M" and "1 \<le> mx"
  shows "f_exp mx (fl_sub mx (Fin v) (Fin M)) =
         Fin (if v - M < - mx then 0 else exp (v - M))"
proof (cases "v - M < - mx")
  case True
  with assms have "rnd mx (v - M) = NInf" by (simp add: rnd_def)
  with True show ?thesis by (simp add: fl_sub_def)
next
  case False
  with assms have r: "rnd mx (v - M) = Fin (v - M)" by (simp add: rnd_def)
  have e1: "exp (v - M) \<le> 1" using assms(1) by simp
  have "exp (v - M) \<le> mx" using e1 assms(2) by (rule order_trans)
  then have "\<bar>exp (v - M)\<bar> \<le> mx" by simp
  then have "rnd mx (exp (v - M)) = Fin (exp (v - M))" by (rule rnd_abs)
  with r False show ?thesis by (simp add: fl_sub_def)
qed

lemma softmax_finite:
  assumes ne: "z \<noteq> []" and len: "real (length z) \<le> float32_max"
  shows "\<exists>p. softmax (map Fin z) = map Fin p \<and> length p = length z \<and>
             (\<forall>q\<in>set p. 0 \<le> q) \<and> sum_list p = 1"
proof -
  from ne obtain x xs where z: "z = x # xs" by (cases z) auto
  from t_max_Fin[of x xs] obtain M where
    M: "t_max (Fin x) (map Fin xs) = Fin M" "x \<le> M" "\<forall>v\<in>set xs. v \<le> M" "M = x \<or> M \<in> set xs"
    by blast
  have Mz: "\<forall>v\<in>set z. v \<le> M" "M \<in> set z" using M z by auto
  define g where "g v = (if v - M < - float32_max then 0 else exp (v - M))" for v
  have g: "f_exp float32_max (fl_sub float32_max (Fin v) (Fin M)) = Fin (g v)"
    if "v \<in> set z" for v
    unfolding g_def using that Mz(1) float32_max_pos(2) by (intro exp_shifted) auto
  have g0: "0 \<le> g v" for v by (simp add: g_def)
  have g1: "g v \<le> 1" if "v \<in> set z" for v
    using that Mz(1) by (simp add: g_def)
  have gM: "g M = 1" using float32_max_pos(1) by (simp add: g_def)
  let ?es = "map g z"
  have e: "map (\<lambda>v. f_exp float32_max (fl_sub float32_max v (Fin M))) (map Fin z) = map Fin ?es"
    unfolding map_map comp_def using g by (intro map_cong refl) auto
  have nn: "\<forall>c\<in>set ?es. 0 \<le> c" using g0 by auto
  have le1: "\<forall>c\<in>set ?es. c \<le> 1" using g1 by auto
  have "sum_list ?es \<le> real (length ?es)" using le1 by (rule sum_list_le_length)
  with len have Sle: "sum_list ?es \<le> float32_max" by simp
  have "g M \<in> set ?es" using Mz(2) by (rule imageI[of M "set z" g, simplified set_map[symmetric]])
  with nn have "g M \<le> sum_list ?es" by (rule member_le_sum_list_real)
  with gM have S1: "1 \<le> sum_list ?es" by simp
  have sum: "fl_sum float32_max (map Fin ?es) = Fin (sum_list ?es)"
    using nn Sle by (rule fl_sum_Fin)
  have d: "fl_div float32_max (Fin c) (Fin (sum_list ?es)) = Fin (c / sum_list ?es)"
    if c: "c \<in> set ?es" for c
  proof -
    from nn c have c0: "0 \<le> c" by blast
    from nn c have cS: "c \<le> sum_list ?es" by (rule member_le_sum_list_real)
    have q0: "0 \<le> c / sum_list ?es" using c0 S1 by simp
    have q1: "c / sum_list ?es \<le> 1" using cS S1 by simp
    from q1 float32_max_pos(2) have "c / sum_list ?es \<le> float32_max" by (rule order_trans)
    with q0 have "\<bar>c / sum_list ?es\<bar> \<le> float32_max" by simp
    then have "rnd float32_max (c / sum_list ?es) = Fin (c / sum_list ?es)" by (rule rnd_abs)
    moreover have "sum_list ?es \<noteq> 0" using S1 by simp
    ultimately show ?thesis by simp
  qed
  let ?p = "map (\<lambda>c. c / sum_list ?es) ?es"
  have sdef: "softmax (map Fin z) =
      map (\<lambda>y. fl_div float32_max y
                (fl_sum float32_max
                   (map (\<lambda>v. f_exp float32_max (fl_sub float32_max v (Fin M))) (map Fin z))))
          (map (\<lambda>v. f_exp float32_max (fl_sub float32_max v (Fin M))) (map Fin z))"
    using M(1) by (simp add: softmax_def z Let_def del: map_map)
  have "softmax (map Fin z) =
        map (\<lambda>y. fl_div float32_max y (Fin (sum_list ?es))) (map Fin ?es)"
    unfolding sdef e sum by (rule refl)
  also have "\<dots> = map (\<lambda>c. fl_div float32_max (Fin c) (Fin (sum_list ?es))) ?es"
    unfolding map_map comp_def by (rule refl)
  also have "\<dots> = map (\<lambda>c. Fin (c / sum_list ?es)) ?es"
    using d by (intro map_cong refl) auto
  also have "\<dots> = map Fin ?p"
    unfolding map_map comp_def by (rule refl)
  finally have sm: "softmax (map Fin z) = map Fin ?p" .
  have "sum_list ?p = sum_list ?es / sum_list ?es"
    using sum_list_div_const[of "\<lambda>c. c" "sum_list ?es" ?es] by simp
  with S1 have s1: "sum_list ?p = 1" by simp
  have pn: "\<forall>q\<in>set ?p. 0 \<le> q" using nn S1 by auto
  have lp: "length ?p = length z" by simp
  from sm lp pn s1 show ?thesis by (intro exI[of _ ?p] conjI)
qed

lemma linear_shape:
  "Linear_shape i out l \<Longrightarrow> length x = i \<Longrightarrow> \<exists>y. linear l x = Inr y \<and> length y = out"
  by (simp add: Linear_shape_def linear_def)

lemma logits_shape:
  assumes "ActorNetwork_shape n net" and "length st = n"
  shows "\<exists>z. logits net st = Inr z \<and> length z = n"
proof -
  from assms obtain h1 where h1: "linear (fc1 net) st = Inr h1" "length h1 = 64"
    using linear_shape[of n 64 "fc1 net" st] by (auto simp: ActorNetwork_shape_def)
  from assms h1 obtain h2 where h2: "linear (fc2 net) (relu h1) = Inr h2" "length h2 = 64"
    using linear_shape[of 64 64 "fc2 net" "relu h1"] by (auto simp: ActorNetwork_shape_def relu_def)
  from assms h2 obtain z where z: "linear (fc3 net) (relu h2) = Inr z" "length z = n"
    using linear_shape[of 64 n "fc3 net" "relu h2"] by (auto simp: ActorNetwork_shape_def relu_def)
  from h1 h2 z show ?thesis by (simp add: logits_def)
qed

lemma softmax_length: "length (softmax z) = length z"
  by (cases z) (simp_all add: softmax_def Let_def)

text \<open>
  Claim C7, as amended. Whatever the parameters and the input, as \<^verbatim>\<open>float32\<close> values:
  when the values of the output layer are all finite (no \<^verbatim>\<open>nan\<close> or infinity came in
  with the state or the parameters, and nothing overflowed in the layers), for at least
  one and at most 65536 channels, \<^verbatim>\<open>forward\<close> returns finite probabilities, none below
  zero, that sum to one.
  With the shapes the constructor builds and a state of as many entries as channels,
  \<^verbatim>\<open>forward\<close> always returns a vector with one entry for each channel.
\<close>

theorem softmax_invariant:
  "(list_all (is_float float32_max) st \<and> ActorNetwork_float32 net \<and>
    logits net st = Inr (map Fin z) \<and> z \<noteq> [] \<and> length z \<le> 65536 \<longrightarrow>
      (\<exists>p. forward net st = Inr (map Fin p) \<and> length p = length z \<and>
           (\<forall>q\<in>set p. 0 \<le> q) \<and> sum_list p = 1)) \<and>
   (ActorNetwork_shape n net \<and> length st = n \<longrightarrow>
      (\<exists>p. forward net st = Inr p \<and> length p = n))"
proof -
  have a: "\<exists>p. forward net st = Inr (map Fin p) \<and> length p = length z \<and>
           (\<forall>q\<in>set p. 0 \<le> q) \<and> sum_list p = 1"
    if h: "list_all (is_float float32_max) st \<and> ActorNetwork_float32 net \<and>
      logits net st = Inr (map Fin z) \<and> z \<noteq> [] \<and> length z \<le> 65536"
  proof -
    from h have "real (length z) \<le> 65536" by simp
    with float32_max_pos(3) have "real (length z) \<le> float32_max" by linarith
    with h softmax_finite[of z] obtain p where
      p: "softmax (map Fin z) = map Fin p" "length p = length z"
         "\<forall>q\<in>set p. 0 \<le> q" "sum_list p = 1" by blast
    from h p(1) have "forward net st = Inr (map Fin p)" by (simp add: forward_def)
    with p show ?thesis by blast
  qed
  have b: "\<exists>p. forward net st = Inr p \<and> length p = n"
    if h: "ActorNetwork_shape n net \<and> length st = n"
  proof -
    from h logits_shape obtain z where z: "logits net st = Inr z" "length z = n" by blast
    then have "forward net st = Inr (softmax z)" by (simp add: forward_def)
    with z(2) show ?thesis by (simp add: softmax_length)
  qed
  from a b show ?thesis by blast
qed

lemma t_dot_zero_row:
  "\<forall>v\<in>set x. \<exists>r. v = Fin r \<Longrightarrow> t_dot (replicate (length x) (Fin 0)) x = Fin 0"
proof -
  assume fin: "\<forall>v\<in>set x. \<exists>r. v = Fin r"
  have "map2 (fl_mul float32_max) (replicate (length x) (Fin 0)) x = replicate (length x) (Fin 0)"
    using fin
  proof (induction x)
    case Nil then show ?case by simp
  next
    case (Cons v x)
    then obtain r where "v = Fin r" by auto
    with Cons float32_max_pos(1) show ?case by (simp add: rnd_def)
  qed
  then show ?thesis
    using fl_sum_zeros[OF float32_max_pos(1)] by (simp add: t_dot_def)
qed

lemma t_dot_nan_row:
  "0 < n \<Longrightarrow> t_dot (replicate n w) (replicate n NaN) = NaN"
proof -
  assume n: "0 < n"
  have "fl_mul float32_max w NaN = NaN" by (cases w) simp_all
  with n show ?thesis by (simp add: t_dot_def fl_sum_nans)
qed

lemma net0_shape: "ActorNetwork_shape 2 net0"
  by (simp add: net0_def ActorNetwork_shape_def Linear_shape_def list_all_iff)

lemma net0_float32: "ActorNetwork_float32 net0"
  using float32_max_pos
  by (simp add: net0_def ActorNetwork_float32_def Linear_float32_def is_float_def list_all_iff)

lemma net0_logits: "logits net0 [Fin 3, Fin 5] = Inr (map Fin [0, 1])"
proof -
  have l1: "linear (fc1 net0) [Fin 3, Fin 5] = Inr (replicate 64 (Fin (- 2)))"
    by (simp add: net0_def linear_def t_dot_def fl_sum_def rnd32_small)
  have r1: "relu (replicate 64 (Fin (- 2))) = replicate 64 (Fin 0)"
    by (simp add: relu_def)
  have d2: "t_dot (replicate 64 (Fin 0)) (replicate 64 (Fin 0)) = Fin 0"
    using t_dot_zero_row[of "replicate 64 (Fin 0)"] by simp
  have l2: "linear (fc2 net0) (replicate 64 (Fin 0)) = Inr (replicate 64 (Fin 1))"
    by (simp add: net0_def linear_def d2 rnd32_small)
  have r2: "relu (replicate 64 (Fin 1)) = replicate 64 (Fin 1)"
    by (simp add: relu_def)
  have d3: "t_dot (replicate 64 (Fin 0)) (replicate 64 (Fin 1)) = Fin 0"
    using t_dot_zero_row[of "replicate 64 (Fin 1)"] by simp
  have l3: "linear (fc3 net0) (replicate 64 (Fin 1)) = Inr [Fin 0, Fin 1]"
    by (simp add: net0_def linear_def d3 rnd32_small)
  show ?thesis by (simp add: logits_def l1 r1 l2 r2 l3)
qed

theorem softmax_invariant_witness:
  "list_all (is_float float32_max) [Fin 3, Fin 5] \<and> ActorNetwork_float32 net0 \<and>
   logits net0 [Fin 3, Fin 5] = Inr (map Fin [0, 1]) \<and> [0, 1 :: real] \<noteq> [] \<and>
   length [0, 1 :: real] \<le> 65536 \<and> ActorNetwork_shape 2 net0 \<and>
   length [Fin 3, Fin 5] = 2 \<and>
   (\<exists>p. forward net0 [Fin 3, Fin 5] = Inr (map Fin p) \<and> length p = 2 \<and>
        list_all (\<lambda>q. 0 \<le> q) p \<and> sum_list p = 1)"
proof -
  have st: "list_all (is_float float32_max) [Fin 3, Fin 5]"
    using float32_max_ge by (simp add: is_float_def)
  from softmax_invariant[of "[Fin 3, Fin 5]" net0 "[0, 1]" 2] st net0_float32 net0_logits
    net0_shape
  show ?thesis by (auto simp: list_all_iff)
qed

text \<open>
  Claim C7 as stated fails: on the state \<open>[nan, nan]\<close>, which \<^verbatim>\<open>step\<close> returns in the
  degenerate case, a network of the constructor's shapes returns \<open>[nan, nan]\<close>, which
  does not sum to one.
\<close>

theorem softmax_counterexample:
  "ActorNetwork_shape 2 net0 \<and> ActorNetwork_float32 net0 \<and>
   forward net0 [NaN, NaN] = Inr [NaN, NaN] \<and>
   fl_sum float32_max [NaN, NaN] \<noteq> Fin 1"
proof -
  have l1: "linear (fc1 net0) [NaN, NaN] = Inr (replicate 64 NaN)"
    by (simp add: net0_def linear_def t_dot_def fl_sum_def)
  have r1: "relu (replicate 64 NaN) = replicate 64 NaN"
    by (simp add: relu_def)
  have d2: "t_dot (replicate 64 (Fin 0)) (replicate 64 NaN) = NaN"
    by (rule t_dot_nan_row) simp
  have l2: "linear (fc2 net0) (replicate 64 NaN) = Inr (replicate 64 NaN)"
    by (simp add: net0_def linear_def d2)
  have l3: "linear (fc3 net0) (replicate 64 NaN) = Inr [NaN, NaN]"
    by (simp add: net0_def linear_def d2)
  have lg: "logits net0 [NaN, NaN] = Inr [NaN, NaN]"
    by (simp add: logits_def l1 r1 l2 l3)
  have sm: "softmax [NaN, NaN] = [NaN, NaN]"
    by (simp add: softmax_def Let_def fl_sub_def fl_sum_def)
  from lg sm net0_shape net0_float32 show ?thesis by (simp add: forward_def fl_sum_def)
qed

section \<open>Properties of the agent\<close>

subsection \<open>Advantages and returns\<close>

lemma f_add_zero_right: "f_add r (Fin 0) = r"
  by (cases r) simp_all

text \<open>
  The loop, started on the rewards before a suffix already folded into \<open>G\<close>, puts the
  returns and advantages of these rewards in front of what it was given.
\<close>

lemma advantage_loop_suffix:
  "length vpre = length pre \<Longrightarrow>
   advantage_loop gamma (zip (rev pre) (rev vpre)) (mc_return gamma suf) adv ret =
     (map (\<lambda>t. f_sub (mc_return gamma (drop t pre @ suf)) (vpre ! t)) [0..<length pre] @ adv,
      map (\<lambda>t. mc_return gamma (drop t pre @ suf)) [0..<length pre] @ ret)"
proof (induction pre arbitrary: vpre suf adv ret rule: rev_induct)
  case Nil
  then show ?case by simp
next
  case (snoc r p)
  from snoc.prems obtain v vp where vpre: "vpre = vp @ [v]" and len: "length vp = length p"
    by (auto simp: length_Suc_conv_rev)
  have G: "f_add r (f_mul (Fin gamma) (mc_return gamma suf)) = mc_return gamma (r # suf)"
    by simp
  have "advantage_loop gamma (zip (rev (p @ [r])) (rev vpre)) (mc_return gamma suf) adv ret
      = advantage_loop gamma (zip (rev p) (rev vp)) (mc_return gamma (r # suf))
          (f_sub (mc_return gamma (r # suf)) v # adv) (mc_return gamma (r # suf) # ret)"
    by (simp add: vpre Let_def)
  also have "\<dots> =
     (map (\<lambda>t. f_sub (mc_return gamma (drop t p @ r # suf)) (vp ! t)) [0..<length p]
        @ f_sub (mc_return gamma (r # suf)) v # adv,
      map (\<lambda>t. mc_return gamma (drop t p @ r # suf)) [0..<length p]
        @ mc_return gamma (r # suf) # ret)"
    by (rule snoc.IH[OF len])
  also have "\<dots> =
     (map (\<lambda>t. f_sub (mc_return gamma (drop t (p @ [r]) @ suf)) (vpre ! t)) [0..<length (p @ [r])] @ adv,
      map (\<lambda>t. mc_return gamma (drop t (p @ [r]) @ suf)) [0..<length (p @ [r])] @ ret)"
    using len by (auto simp add: vpre nth_append simp del: mc_return.simps)
  finally show ?case .
qed

text \<open>
  Claim C3. On rewards and values of the same length, \<^verbatim>\<open>compute_advantage\<close> returns
  the advantages and the returns of the backward recursion. On one reward \<open>r\<close> and one
  value \<open>v\<close> it returns the advantage \<open>r - v\<close> and the return \<open>r\<close>. On the rewards
  \<open>[1, 1]\<close>, the values \<open>[0, 0]\<close> and \<open>\<gamma> = 0.5\<close> it returns \<open>[1.5, 1]\<close> twice.
\<close>

theorem compute_advantage_backward_recursion:
  "(length vals = length rewards \<longrightarrow>
      compute_advantage gamma rewards vals =
        (advantages_spec gamma rewards vals, returns_spec gamma rewards)) \<and>
   compute_advantage gamma [r] [v] = ([f_sub r v], [r]) \<and>
   compute_advantage (1/2) [Fin 1, Fin 1] [Fin 0, Fin 0] =
     ([Fin (3/2), Fin 1], [Fin (3/2), Fin 1])"
proof -
  have gen: "compute_advantage gamma rewards vals =
        (advantages_spec gamma rewards vals, returns_spec gamma rewards)"
    if "length vals = length rewards"
    using advantage_loop_suffix[OF that, of gamma "[]" "[]" "[]"]
    by (simp add: compute_advantage_def advantages_spec_def returns_spec_def)
  have one: "compute_advantage gamma [r] [v] = ([f_sub r v], [r])"
    by (simp add: compute_advantage_def Let_def f_add_zero_right)
  have two: "compute_advantage (1/2) [Fin 1, Fin 1] [Fin 0, Fin 0] =
     ([Fin (3/2), Fin 1], [Fin (3/2), Fin 1])"
    by (simp add: compute_advantage_def Let_def f_sub_def)
  from gen one two show ?thesis by blast
qed

theorem compute_advantage_backward_recursion_witness:
  "length [Fin 4, Fin 1, Fin 3] = length [Fin 2, Fin 8, Fin 6] \<and>
   compute_advantage (1/2) [Fin 2, Fin 8, Fin 6] [Fin 4, Fin 1, Fin 3] =
     (advantages_spec (1/2) [Fin 2, Fin 8, Fin 6] [Fin 4, Fin 1, Fin 3],
      returns_spec (1/2) [Fin 2, Fin 8, Fin 6]) \<and>
   returns_spec (1/2) [Fin 2, Fin 8, Fin 6] = [Fin (15/2), Fin 11, Fin 6] \<and>
   advantages_spec (1/2) [Fin 2, Fin 8, Fin 6] [Fin 4, Fin 1, Fin 3] =
     [Fin (7/2), Fin 10, Fin 3]"
proof -
  have up: "[0..<3] = [0, 1, 2]" by (simp add: upt_rec)
  have r: "returns_spec (1/2) [Fin 2, Fin 8, Fin 6] = [Fin (15/2), Fin 11, Fin 6]"
    by (simp add: returns_spec_def up)
  have a: "advantages_spec (1/2) [Fin 2, Fin 8, Fin 6] [Fin 4, Fin 1, Fin 3] =
     [Fin (7/2), Fin 10, Fin 3]"
    by (simp add: advantages_spec_def up f_sub_def)
  from compute_advantage_backward_recursion[of "[Fin 4, Fin 1, Fin 3]" "[Fin 2, Fin 8, Fin 6]" "1/2"]
    r a show ?thesis by simp
qed

subsection \<open>The clipped surrogate objective\<close>







subsection \<open>The first statements of update\<close>

text \<open>
  On the values of several states, or of none, the two statements return what
  \<^verbatim>\<open>compute_advantage\<close> returns on the vector of the values.
\<close>

lemma compute_advantage_of_Vector:
  "compute_advantage_of gamma rewards (Vector vs) = Inr (compute_advantage gamma rewards vs)"
  by (simp add: compute_advantage_of_def zip_reversed_def compute_advantage_def)

lemma update_advantages_returns:
  "length critic_out \<noteq> 1 \<Longrightarrow>
   update_advantages gamma critic_out rewards = Inr (compute_advantage gamma rewards critic_out)"
  by (cases critic_out; cases "tl critic_out")
     (simp_all add: update_advantages_def squeeze_column_def compute_advantage_of_Vector)

text \<open>
  Claim C6 asks of every call of \<^verbatim>\<open>update\<close> one step of each optimizer. On a trajectory
  of one step, \<^verbatim>\<open>squeeze\<close> leaves the value of the critic as a tensor of no dimension
  and \<^verbatim>\<open>compute_advantage\<close> raises \<^verbatim>\<open>TypeError\<close>: the call ends in the second
  statement of \<^verbatim>\<open>update\<close>, before either optimizer is called.
\<close>

theorem update_one_step_raises:
  "squeeze_column [v] = Scalar v \<and> update_advantages gamma [v] [r] = Inl TypeError"
  by (simp add: update_advantages_def squeeze_column_def compute_advantage_of_def
      zip_reversed_def)

end
